theory Spec2Isabelle
  imports Main
begin

section \<open>The remote store\<close>

text \<open>
  The hooks \<^verbatim>\<open>useDriverOrders\<close> and \<^verbatim>\<open>useAvailableOrders\<close> hold no data of their own:
  every read and write is a request to the hosted relational store. The store is modelled
  as two tables, and every request the client issues is appended to a log together with
  the error the store answered with, if any.

  Row identifiers are the strings the client handles. Instants (\<^verbatim>\<open>created_at\<close>,
  \<^verbatim>\<open>updated_at\<close>, \<^verbatim>\<open>new Date().toISOString()\<close>) are natural numbers: a UTC timestamp in
  ISO-8601 format orders like the instant it denotes. Console output is not modelled.
\<close>

type_synonym uuid = string
type_synonym timestamptz = nat

datatype OrderStatus = pending | confirmed | preparing | ready | delivered | cancelled

record profile_row =
  full_name :: string
  phone :: string

record delivery_address_row =
  street_address :: string
  city :: string

text \<open>
  A row of \<^verbatim>\<open>orders\<close>. The fields \<open>profiles\<close> and \<open>delivery_addresses\<close> are the related
  rows the store embeds in a \<^verbatim>\<open>select\<close> (\<open>None\<close> when there is no related row).
\<close>

record order_row =
  id_order :: uuid
  status :: OrderStatus
  notes_order :: "string option"
  delivery_address_id :: "uuid option"
  created_at :: timestamptz
  updated_at :: timestamptz
  profiles :: "profile_row option"
  delivery_addresses :: "delivery_address_row option"

record assignment_row =
  id_assignment :: uuid
  order_id :: uuid
  driver_id :: uuid
  picked_up_at :: "timestamptz option"
  delivered_at :: "timestamptz option"

record database =
  orders :: "order_row list"
  order_assignments :: "assignment_row list"

subsection \<open>Requests\<close>

text \<open>The filters the two hooks put on a \<^verbatim>\<open>from('orders').select(...)\<close> request.\<close>

datatype filter_orders =
    Eq_status OrderStatus
  | In_status "OrderStatus list"
  | Is_null_delivery_address_id
  | Not_cs_order_assignments
  | Not_in_id string
  | Eq_order_assignments_driver_id uuid

text \<open>The embedded resources a select marks \<^verbatim>\<open>!inner\<close>.\<close>

datatype resource = Profiles | Delivery_addresses | Order_assignments

datatype ordering = Created_at_ascending | Created_at_descending

record orders_query =
  inner :: "resource list"
  filters :: "filter_orders list"
  order_by :: ordering

text \<open>The payload of \<^verbatim>\<open>from('orders').update({status, updated_at})\<close>.\<close>

record orders_update =
  status_upd :: OrderStatus
  updated_at_upd :: timestamptz

text \<open>
  The optional argument \<^verbatim>\<open>assignmentUpdate\<close> of the mutation, sent as it is as the payload
  of \<^verbatim>\<open>from('order_assignments').update(...)\<close>. Both fields are optional; an absent field
  leaves its column alone.
\<close>

record assignmentUpdate =
  picked_up_at_upd :: "timestamptz option"
  delivered_at_upd :: "timestamptz option"

datatype request =
    Select_orders orders_query
  | Select_order_assignments_order_id
  | Select_order_assignments_id_eq_order_id uuid
  | Update_orders orders_update uuid
  | Update_order_assignments assignmentUpdate uuid

datatype error = PostgrestError (message: string)

subsection \<open>What the store answers\<close>

text \<open>
  The store is outside the repository. Two things about it are left open and taken as
  parameters: which requests it answers with an error (\<open>faults\<close>), and which orders pass
  the filter \<^verbatim>\<open>.not('order_assignments', 'cs', '{}')\<close>, a containment test on an embedded
  resource whose meaning the client code does not determine (\<open>not_cs\<close>, which may depend
  on the tables). The other filters have the meaning of the store's query operators:
  \<^verbatim>\<open>eq\<close>, \<^verbatim>\<open>in\<close>, \<^verbatim>\<open>is null\<close>, \<^verbatim>\<open>not in\<close>; a filter on a column of an embedded resource
  restricts the embedded rows, and \<^verbatim>\<open>!inner\<close> drops the orders left without an embedded row.
\<close>

record server =
  faults :: "request \<Rightarrow> error option"
  not_cs :: "database \<Rightarrow> order_row \<Rightarrow> bool"

text \<open>
  The value of a \<^verbatim>\<open>not in\<close> filter arrives as the text \<^verbatim>\<open>(id1,id2,...)\<close>: the store drops the
  two parentheses and cuts the rest at every comma.
\<close>

fun split_comma :: "string \<Rightarrow> string list" where
  "split_comma [] = [[]]"
| "split_comma (c # s) =
     (if c = CHR '','' then [] # split_comma s
      else (case split_comma s of [] \<Rightarrow> [[c]] | x # xs \<Rightarrow> (c # x) # xs))"

definition parse_in_list :: "string \<Rightarrow> string list" where
  "parse_in_list txt = split_comma (butlast (tl txt))"

fun row_filter :: "(order_row \<Rightarrow> bool) \<Rightarrow> order_row \<Rightarrow> filter_orders \<Rightarrow> bool" where
  "row_filter cs ord (Eq_status s) = (status ord = s)"
| "row_filter cs ord (In_status ss) = (status ord \<in> set ss)"
| "row_filter cs ord Is_null_delivery_address_id = (delivery_address_id ord = None)"
| "row_filter cs ord Not_cs_order_assignments = cs ord"
| "row_filter cs ord (Not_in_id txt) = (id_order ord \<notin> set (parse_in_list txt))"
| "row_filter cs ord (Eq_order_assignments_driver_id d) = True"

fun embedded_filter :: "assignment_row \<Rightarrow> filter_orders \<Rightarrow> bool" where
  "embedded_filter a (Eq_order_assignments_driver_id d) = (driver_id a = d)"
| "embedded_filter a _ = True"

definition embedded_assignments ::
  "database \<Rightarrow> filter_orders list \<Rightarrow> order_row \<Rightarrow> assignment_row list" where
  "embedded_assignments d fs ord =
     filter (\<lambda>a. order_id a = id_order ord \<and> list_all (embedded_filter a) fs)
       (order_assignments d)"

fun inner_join :: "database \<Rightarrow> filter_orders list \<Rightarrow> order_row \<Rightarrow> resource \<Rightarrow> bool" where
  "inner_join d fs ord Profiles = (profiles ord \<noteq> None)"
| "inner_join d fs ord Delivery_addresses = (delivery_addresses ord \<noteq> None)"
| "inner_join d fs ord Order_assignments = (embedded_assignments d fs ord \<noteq> [])"

definition selected :: "(order_row \<Rightarrow> bool) \<Rightarrow> database \<Rightarrow> orders_query \<Rightarrow> order_row \<Rightarrow> bool" where
  "selected cs d q ord =
     (list_all (row_filter cs ord) (filters q) \<and> list_all (inner_join d (filters q) ord) (inner q))"

definition run_orders_query ::
  "(order_row \<Rightarrow> bool) \<Rightarrow> database \<Rightarrow> orders_query \<Rightarrow> order_row list" where
  "run_orders_query cs d q =
     (let rows = sort_key created_at (filter (selected cs d q) (orders d))
      in case order_by q of Created_at_ascending \<Rightarrow> rows | Created_at_descending \<Rightarrow> rev rows)"

definition apply_orders_update :: "orders_update \<Rightarrow> uuid \<Rightarrow> database \<Rightarrow> database" where
  "apply_orders_update p oid d =
     d\<lparr>orders :=
         map (\<lambda>ord. if id_order ord = oid
                     then ord\<lparr>status := status_upd p, updated_at := updated_at_upd p\<rparr>
                     else ord) (orders d)\<rparr>"

definition patch_assignment :: "assignmentUpdate \<Rightarrow> assignment_row \<Rightarrow> assignment_row" where
  "patch_assignment p a =
     a\<lparr>picked_up_at := (case picked_up_at_upd p of None \<Rightarrow> picked_up_at a | Some t \<Rightarrow> Some t),
       delivered_at := (case delivered_at_upd p of None \<Rightarrow> delivered_at a | Some t \<Rightarrow> Some t)\<rparr>"

definition apply_assignment_update :: "assignmentUpdate \<Rightarrow> uuid \<Rightarrow> database \<Rightarrow> database" where
  "apply_assignment_update p oid d =
     d\<lparr>order_assignments :=
         map (\<lambda>a. if order_id a = oid then patch_assignment p a else a) (order_assignments d)\<rparr>"

text \<open>
  The state the client code runs against: the store's tables, and the log of the requests
  sent so far, each with the error it was answered with.
\<close>

record world =
  db :: database
  sent :: "(request \<times> error option) list"

text \<open>
  One awaited request, answered with \<^verbatim>\<open>{ data, error }\<close>. Every request is logged. A
  request the store rejects changes no table and yields the error; any other request is
  applied and yields its data.
\<close>

definition remote ::
  "server \<Rightarrow> request \<Rightarrow> (database \<Rightarrow> 'a \<times> database) \<Rightarrow> world \<Rightarrow> (error + 'a) \<times> world" where
  "remote srv req act w =
     (case faults srv req of
        Some e \<Rightarrow> (Inl e, w\<lparr>sent := sent w @ [(req, Some e)]\<rparr>)
      | None \<Rightarrow>
          (case act (db w) of
             (r, d') \<Rightarrow> (Inr r, w\<lparr>db := d', sent := sent w @ [(req, None)]\<rparr>)))"

definition select_orders ::
  "server \<Rightarrow> orders_query \<Rightarrow> world \<Rightarrow> (error + order_row list) \<times> world" where
  "select_orders srv q =
     remote srv (Select_orders q) (\<lambda>d. (run_orders_query (not_cs srv d) d q, d))"

definition select_order_assignments_order_id ::
  "server \<Rightarrow> world \<Rightarrow> (error + uuid list) \<times> world" where
  "select_order_assignments_order_id srv =
     remote srv Select_order_assignments_order_id (\<lambda>d. (map order_id (order_assignments d), d))"

definition select_order_assignments_id ::
  "server \<Rightarrow> uuid \<Rightarrow> world \<Rightarrow> (error + uuid list) \<times> world" where
  "select_order_assignments_id srv oid =
     remote srv (Select_order_assignments_id_eq_order_id oid)
       (\<lambda>d. (map id_assignment (filter (\<lambda>a. order_id a = oid) (order_assignments d)), d))"

definition update_orders ::
  "server \<Rightarrow> orders_update \<Rightarrow> uuid \<Rightarrow> world \<Rightarrow> (error + unit) \<times> world" where
  "update_orders srv p oid =
     remote srv (Update_orders p oid) (\<lambda>d. ((), apply_orders_update p oid d))"

definition update_order_assignments ::
  "server \<Rightarrow> assignmentUpdate \<Rightarrow> uuid \<Rightarrow> world \<Rightarrow> (error + unit) \<times> world" where
  "update_order_assignments srv p oid =
     remote srv (Update_order_assignments p oid) (\<lambda>d. ((), apply_assignment_update p oid d))"

section \<open>The client's view of the user interface\<close>

text \<open>
  What a hook does to the user interface: invalidate the cached queries under a key
  prefix, or show a toast.
\<close>

datatype ui_effect =
    InvalidateQueries "string list"
  | Toast_success string
  | Toast_error string

text \<open>
  JavaScript's \<^verbatim>\<open>!driverId\<close> for an optional string: true for \<^verbatim>\<open>undefined\<close> and for the
  empty string.
\<close>

definition falsy :: "string option \<Rightarrow> bool" where
  "falsy driverId = (case driverId of None \<Rightarrow> True | Some s \<Rightarrow> s = [])"

section \<open>useDriverOrders\<close>

subsection \<open>The assigned-orders query\<close>

definition assigned_orders_query :: "uuid \<Rightarrow> orders_query" where
  "assigned_orders_query driverId =
     \<lparr>inner = [Order_assignments],
      filters = [Eq_order_assignments_driver_id driverId, In_status [confirmed, preparing, ready]],
      order_by = Created_at_descending\<rparr>"

definition assignedOrders_queryFn ::
  "server \<Rightarrow> string option \<Rightarrow> world \<Rightarrow> (error + order_row list) \<times> world" where
  "assignedOrders_queryFn srv driverId w =
     (case driverId of
        None \<Rightarrow> (Inr [], w)
      | Some d \<Rightarrow>
          (if falsy driverId then (Inr [], w)
           else case select_orders srv (assigned_orders_query d) w of
                  (Inl e, w') \<Rightarrow> (Inl e, w')
                | (Inr data, w') \<Rightarrow> (Inr data, w')))"

subsection \<open>The available-orders query\<close>

text \<open>
  \<^verbatim>\<open>excludeOrderIds.join(',')\<close>. The ids to exclude are sent as the text \<^verbatim>\<open>(id1,id2,...)\<close>
  of a \<^verbatim>\<open>not in\<close> filter, which is added only when the list is not empty.
\<close>

fun join_comma :: "string list \<Rightarrow> string" where
  "join_comma [] = []"
| "join_comma [x] = x"
| "join_comma (x # y # xs) = x @ '','' @ join_comma (y # xs)"

definition ready_orders_query :: "uuid list \<Rightarrow> orders_query" where
  "ready_orders_query excludeOrderIds =
     \<lparr>inner = [],
      filters = Eq_status ready #
        (if length excludeOrderIds > 0
         then [Not_in_id (''('' @ join_comma excludeOrderIds @ '')'')] else []),
      order_by = Created_at_descending\<rparr>"

definition availableOrders_queryFn ::
  "server \<Rightarrow> world \<Rightarrow> (error + order_row list) \<times> world" where
  "availableOrders_queryFn srv w =
     (case select_order_assignments_order_id srv w of
        (Inl assignedError, w1) \<Rightarrow> (Inl assignedError, w1)
      | (Inr assignedOrderIds, w1) \<Rightarrow>
          (case select_orders srv (ready_orders_query assignedOrderIds) w1 of
             (Inl e, w2) \<Rightarrow> (Inl e, w2)
           | (Inr data, w2) \<Rightarrow> (Inr data, w2)))"

subsection \<open>The mutation updateOrderStatus\<close>

text \<open>
  \<open>now\<close> is the clock reading of \<^verbatim>\<open>new Date().toISOString()\<close>. The function returns
  \<open>Inl\<close> of the error it throws.
\<close>

definition mutationFn ::
  "server \<Rightarrow> timestamptz \<Rightarrow> uuid \<Rightarrow> OrderStatus \<Rightarrow> assignmentUpdate option \<Rightarrow> world
     \<Rightarrow> (error + unit) \<times> world" where
  "mutationFn srv now orderId st assignmentUpdate w =
     (case update_orders srv \<lparr>status_upd = st, updated_at_upd = now\<rparr> orderId w of
        (Inl orderError, w1) \<Rightarrow> (Inl orderError, w1)
      | (Inr _, w1) \<Rightarrow>
          (case assignmentUpdate of
             None \<Rightarrow> (Inr (), w1)
           | Some upd \<Rightarrow>
               (case update_order_assignments srv upd orderId w1 of
                  (Inl assignmentError, w2) \<Rightarrow> (Inl assignmentError, w2)
                | (Inr _, w2) \<Rightarrow> (Inr (), w2))))"

definition onSuccess :: "ui_effect list" where
  "onSuccess =
     [InvalidateQueries [''driver-orders''],
      InvalidateQueries [''available-orders''],
      Toast_success ''Estado del pedido actualizado'']"

definition onError :: "error \<Rightarrow> ui_effect list" where
  "onError e = [Toast_error (''Error al actualizar pedido: '' @ message e)]"

text \<open>
  \<^verbatim>\<open>updateOrderStatus.mutate\<close>: the mutation library runs \<open>mutationFn\<close>, then
  \<open>onError\<close> with the error thrown, or \<open>onSuccess\<close> when nothing was thrown.
\<close>

definition updateOrderStatus ::
  "server \<Rightarrow> timestamptz \<Rightarrow> uuid \<Rightarrow> OrderStatus \<Rightarrow> assignmentUpdate option \<Rightarrow> world
     \<Rightarrow> (error + unit) \<times> ui_effect list \<times> world" where
  "updateOrderStatus srv now orderId st assignmentUpdate w =
     (case mutationFn srv now orderId st assignmentUpdate w of
        (Inl e, w') \<Rightarrow> (Inl e, onError e, w')
      | (Inr u, w') \<Rightarrow> (Inr u, onSuccess, w'))"

text \<open>
  The two callers. \<open>called\<close> is the clock reading when the caller builds its argument,
  \<open>now\<close> the later one inside the mutation function.
\<close>

definition pickupOrder ::
  "server \<Rightarrow> timestamptz \<Rightarrow> timestamptz \<Rightarrow> uuid \<Rightarrow> world
     \<Rightarrow> (error + unit) \<times> ui_effect list \<times> world" where
  "pickupOrder srv called now orderId =
     updateOrderStatus srv now orderId ready
       (Some \<lparr>picked_up_at_upd = Some called, delivered_at_upd = None\<rparr>)"

definition deliverOrder ::
  "server \<Rightarrow> timestamptz \<Rightarrow> timestamptz \<Rightarrow> uuid \<Rightarrow> world
     \<Rightarrow> (error + unit) \<times> ui_effect list \<times> world" where
  "deliverOrder srv called now orderId =
     updateOrderStatus srv now orderId delivered
       (Some \<lparr>picked_up_at_upd = None, delivered_at_upd = Some called\<rparr>)"

section \<open>useAvailableOrders\<close>

subsection \<open>The query\<close>

definition pending_orders_query :: orders_query where
  "pending_orders_query =
     \<lparr>inner = [Profiles, Delivery_addresses],
      filters = [Eq_status pending, Is_null_delivery_address_id, Not_cs_order_assignments],
      order_by = Created_at_ascending\<rparr>"

text \<open>
  The loop over the orders the store returned. Only \<^verbatim>\<open>data\<close> of each answer is read:
  with an error \<^verbatim>\<open>assignments\<close> is \<^verbatim>\<open>null\<close>, and the order is pushed.
\<close>

fun filter_loop ::
  "server \<Rightarrow> order_row list \<Rightarrow> order_row list \<Rightarrow> world \<Rightarrow> order_row list \<times> world" where
  "filter_loop srv [] filteredOrders w = (filteredOrders, w)"
| "filter_loop srv (ord # rest) filteredOrders w =
     (case select_order_assignments_id srv (id_order ord) w of
        (Inl _, w') \<Rightarrow> filter_loop srv rest (filteredOrders @ [ord]) w'
      | (Inr assignments, w') \<Rightarrow>
          (if length assignments = 0
           then filter_loop srv rest (filteredOrders @ [ord]) w'
           else filter_loop srv rest filteredOrders w'))"

definition useAvailableOrders_queryFn ::
  "server \<Rightarrow> string option \<Rightarrow> world \<Rightarrow> (error + order_row list) \<times> world" where
  "useAvailableOrders_queryFn srv driverId w =
     (if falsy driverId then (Inr [], w)
      else case select_orders srv pending_orders_query w of
             (Inl e, w1) \<Rightarrow> (Inl e, w1)
           | (Inr data, w1) \<Rightarrow>
               (case filter_loop srv data [] w1 of
                  (filteredOrders, w2) \<Rightarrow> (Inr filteredOrders, w2)))"

subsection \<open>The real-time subscription\<close>

text \<open>
  \<^verbatim>\<open>String.prototype.includes\<close>: the second string occurs in the first as a run of
  consecutive characters. The needle \<^verbatim>\<open>Mesa:\<close> is ASCII, so the test gives the same answer
  on the bytes of a UTF-8 string as on JavaScript's code units.
\<close>

fun startsWith :: "string \<Rightarrow> string \<Rightarrow> bool" where
  "startsWith s [] = True"
| "startsWith [] (c # t) = False"
| "startsWith (b # s) (c # t) = (b = c \<and> startsWith s t)"

fun includes_str :: "string \<Rightarrow> string \<Rightarrow> bool" where
  "includes_str [] t = (t = [])"
| "includes_str (b # s) t = (startsWith (b # s) t \<or> includes_str s t)"

datatype event = INSERT | UPDATE | DELETE

text \<open>A change of the store's feed, and one \<^verbatim>\<open>.on('postgres_changes', filter, callback)\<close>.\<close>

record change =
  eventType :: event
  schema_name :: string
  table_name :: string
  new_row :: order_row

record binding =
  on_event :: event
  on_schema :: string
  on_table :: string
  callback :: "order_row \<Rightarrow> ui_effect list"

definition on_insert :: "order_row \<Rightarrow> ui_effect list" where
  "on_insert ord =
     (if status ord = pending \<and>
         \<not> (case notes_order ord of None \<Rightarrow> False | Some n \<Rightarrow> includes_str n ''Mesa:'')
      then [InvalidateQueries [''available-orders'']] else [])"

definition on_update :: "order_row \<Rightarrow> ui_effect list" where
  "on_update ord = [InvalidateQueries [''available-orders'']]"

record channel =
  channel_name :: string
  bindings :: "binding list"

text \<open>
  The effect that subscribes: no channel without a driver id, otherwise the channel
  \<^verbatim>\<open>new-orders-changes\<close> with its two callbacks.
\<close>

definition subscription :: "string option \<Rightarrow> channel option" where
  "subscription driverId =
     (if falsy driverId then None
      else Some \<lparr>channel_name = ''new-orders-changes'',
                 bindings =
                   [\<lparr>on_event = INSERT, on_schema = ''public'', on_table = ''orders'',
                     callback = on_insert\<rparr>,
                    \<lparr>on_event = UPDATE, on_schema = ''public'', on_table = ''orders'',
                     callback = on_update\<rparr>]\<rparr>)"

text \<open>The subscription library calls every callback whose filter the change matches.\<close>

definition matches :: "binding \<Rightarrow> change \<Rightarrow> bool" where
  "matches b c =
     (on_event b = eventType c \<and> on_schema b = schema_name c \<and> on_table b = table_name c)"

definition receive :: "channel \<Rightarrow> change \<Rightarrow> ui_effect list" where
  "receive ch c = concat (map (\<lambda>b. if matches b c then callback b (new_row c) else []) (bindings ch))"

section \<open>Auxiliary notions and sample data\<close>

text \<open>The requests a run has added to the log, each with the error it was answered with.\<close>

definition new_sent :: "world \<Rightarrow> world \<Rightarrow> (request \<times> error option) list" where
  "new_sent w w' = drop (length (sent w)) (sent w')"

text \<open>An order is assigned when some row of \<^verbatim>\<open>order_assignments\<close> references its id.\<close>

definition assigned :: "database \<Rightarrow> order_row \<Rightarrow> bool" where
  "assigned d ord = list_ex (\<lambda>a. order_id a = id_order ord) (order_assignments d)"


text \<open>
  Four stores. The first answers every request; the others reject one kind of request
  each. In the last one the filter \<^verbatim>\<open>.not('order_assignments', 'cs', '{}')\<close> means what the
  hook's comment says, \<^verbatim>\<open>No existing assignments\<close>; in the others it lets every order pass.
\<close>

definition reliable :: server where
  "reliable = \<lparr>faults = (\<lambda>req. None), not_cs = (\<lambda>d ord. True)\<rparr>"

definition rejecting_orders :: server where
  "rejecting_orders =
     \<lparr>faults = (\<lambda>req. case req of
                  Update_orders p oid \<Rightarrow> Some (PostgrestError ''permission denied'')
                | _ \<Rightarrow> None),
      not_cs = (\<lambda>d ord. True)\<rparr>"

definition rejecting_assignments :: server where
  "rejecting_assignments =
     \<lparr>faults = (\<lambda>req. case req of
                  Update_order_assignments p oid \<Rightarrow> Some (PostgrestError ''timeout'')
                | _ \<Rightarrow> None),
      not_cs = (\<lambda>d ord. True)\<rparr>"

definition lookup_failing :: server where
  "lookup_failing =
     \<lparr>faults = (\<lambda>req. case req of
                  Select_order_assignments_id_eq_order_id oid \<Rightarrow> Some (PostgrestError ''timeout'')
                | _ \<Rightarrow> None),
      not_cs = (\<lambda>d ord. \<not> assigned d ord)\<rparr>"

definition order1 :: order_row where
  "order1 =
     \<lparr>id_order = ''o1'', status = ready, notes_order = None, delivery_address_id = None,
      created_at = 1, updated_at = 1,
      profiles = Some \<lparr>full_name = ''Ana'', phone = ''600''\<rparr>,
      delivery_addresses = Some \<lparr>street_address = ''Calle 1'', city = ''Madrid''\<rparr>\<rparr>"

definition assignment1 :: assignment_row where
  "assignment1 =
     \<lparr>id_assignment = ''a1'', order_id = ''o1'', driver_id = ''d1'',
      picked_up_at = None, delivered_at = None\<rparr>"

definition world1 :: world where
  "world1 = \<lparr>db = \<lparr>orders = [order1], order_assignments = [assignment1]\<rparr>, sent = []\<rparr>"

definition delivered_at_5 :: assignmentUpdate where
  "delivered_at_5 = \<lparr>picked_up_at_upd = None, delivered_at_upd = Some 5\<rparr>"

definition ready_unassigned :: database where
  "ready_unassigned = \<lparr>orders = [order1], order_assignments = []\<rparr>"

definition order2 :: order_row where
  "order2 =
     \<lparr>id_order = ''o2'', status = pending, notes_order = None, delivery_address_id = None,
      created_at = 2, updated_at = 2,
      profiles = Some \<lparr>full_name = ''Luis'', phone = ''601''\<rparr>,
      delivery_addresses = Some \<lparr>street_address = ''Calle 2'', city = ''Madrid''\<rparr>\<rparr>"

definition assignment2 :: assignment_row where
  "assignment2 =
     \<lparr>id_assignment = ''a2'', order_id = ''o2'', driver_id = ''d1'',
      picked_up_at = None, delivered_at = None\<rparr>"

definition world2 :: world where
  "world2 = \<lparr>db = \<lparr>orders = [order2], order_assignments = [assignment2]\<rparr>, sent = []\<rparr>"



definition channel_d1 :: channel where
  "channel_d1 =
     \<lparr>channel_name = ''new-orders-changes'',
      bindings =
        [\<lparr>on_event = INSERT, on_schema = ''public'', on_table = ''orders'', callback = on_insert\<rparr>,
         \<lparr>on_event = UPDATE, on_schema = ''public'', on_table = ''orders'', callback = on_update\<rparr>]\<rparr>"

definition insert_delivery_order :: change where
  "insert_delivery_order =
     \<lparr>eventType = INSERT, schema_name = ''public'', table_name = ''orders'', new_row = order2\<rparr>"

definition insert_table_order :: change where
  "insert_table_order =
     \<lparr>eventType = INSERT, schema_name = ''public'', table_name = ''orders'',
      new_row = order2\<lparr>notes_order := Some ''Mesa: 4''\<rparr>\<rparr>"

definition update_order :: change where
  "update_order =
     \<lparr>eventType = UPDATE, schema_name = ''public'', table_name = ''orders'', new_row = order1\<rparr>"

section \<open>The mutation updateOrderStatus\<close>

text \<open>The mutation function, written out by the answers of the store.\<close>

lemma mutationFn_unfold:
  "mutationFn srv now orderId st au w =
     (case faults srv (Update_orders \<lparr>status_upd = st, updated_at_upd = now\<rparr> orderId) of
        Some e \<Rightarrow>
          (Inl e,
           w\<lparr>sent := sent w @
                [(Update_orders \<lparr>status_upd = st, updated_at_upd = now\<rparr> orderId, Some e)]\<rparr>)
      | None \<Rightarrow>
          (case au of
             None \<Rightarrow>
               (Inr (),
                w\<lparr>db := apply_orders_update \<lparr>status_upd = st, updated_at_upd = now\<rparr> orderId (db w),
                  sent := sent w @
                    [(Update_orders \<lparr>status_upd = st, updated_at_upd = now\<rparr> orderId, None)]\<rparr>)
           | Some upd \<Rightarrow>
               (case faults srv (Update_order_assignments upd orderId) of
                  Some e \<Rightarrow>
                    (Inl e,
                     w\<lparr>db := apply_orders_update \<lparr>status_upd = st, updated_at_upd = now\<rparr> orderId (db w),
                       sent := sent w @
                         [(Update_orders \<lparr>status_upd = st, updated_at_upd = now\<rparr> orderId, None),
                          (Update_order_assignments upd orderId, Some e)]\<rparr>)
                | None \<Rightarrow>
                    (Inr (),
                     w\<lparr>db := apply_assignment_update upd orderId
                              (apply_orders_update \<lparr>status_upd = st, updated_at_upd = now\<rparr> orderId (db w)),
                       sent := sent w @
                         [(Update_orders \<lparr>status_upd = st, updated_at_upd = now\<rparr> orderId, None),
                          (Update_order_assignments upd orderId, None)]\<rparr>))))"
  by (simp add: mutationFn_def update_orders_def update_order_assignments_def remote_def
           split: option.splits)

text \<open>
  C1, as amended. For every input \<open>orderId\<close>, \<open>st\<close>, \<open>au\<close>, the mutation sends to the table
  \<^verbatim>\<open>orders\<close> exactly the payload \<^verbatim>\<open>{status, updated_at}\<close> filtered by \<^verbatim>\<open>id = orderId\<close>, and
  after it sends the given \<^verbatim>\<open>assignmentUpdate\<close> payload to \<^verbatim>\<open>order_assignments\<close>, filtered
  by \<^verbatim>\<open>order_id = orderId\<close>, if and only if \<^verbatim>\<open>assignmentUpdate\<close> is provided and the store
  answered the update of \<^verbatim>\<open>orders\<close> without an error. It sends nothing else.
\<close>

theorem updateOrderStatus_requests:
  "map fst (sent (snd (snd (updateOrderStatus srv now orderId st au w)))) =
     map fst (sent w) @
       Update_orders \<lparr>status_upd = st, updated_at_upd = now\<rparr> orderId #
       (case au of
          None \<Rightarrow> []
        | Some upd \<Rightarrow>
            if faults srv (Update_orders \<lparr>status_upd = st, updated_at_upd = now\<rparr> orderId) = None
            then [Update_order_assignments upd orderId] else [])"
proof (cases "faults srv (Update_orders \<lparr>status_upd = st, updated_at_upd = now\<rparr> orderId)")
  case None
  show ?thesis
  proof (cases au)
    case None
    with \<open>faults srv _ = None\<close> show ?thesis
      by (simp add: updateOrderStatus_def mutationFn_unfold)
  next
    case (Some upd)
    with \<open>faults srv _ = None\<close> show ?thesis
      by (cases "faults srv (Update_order_assignments upd orderId)")
         (simp_all add: updateOrderStatus_def mutationFn_unfold)
  qed
next
  case (Some e)
  then show ?thesis
    by (cases au) (simp_all add: updateOrderStatus_def mutationFn_unfold)
qed

theorem updateOrderStatus_requests_witness:
  "map fst (sent (snd (snd
      (updateOrderStatus reliable 5 ''o1'' delivered (Some delivered_at_5) world1)))) =
     [Update_orders \<lparr>status_upd = delivered, updated_at_upd = 5\<rparr> ''o1'',
      Update_order_assignments delivered_at_5 ''o1'']"
  using updateOrderStatus_requests [of reliable 5 "''o1''" delivered "Some delivered_at_5" world1]
  by (simp add: reliable_def world1_def)

text \<open>
  C1 as it was stated fails where the store rejects the update of \<^verbatim>\<open>orders\<close>: the
  \<^verbatim>\<open>assignmentUpdate\<close> is provided and no request for \<^verbatim>\<open>order_assignments\<close> is sent.
\<close>

theorem assignment_update_not_sent_counterexample:
  "Some delivered_at_5 \<noteq> None \<and>
   Update_order_assignments delivered_at_5 ''o1'' \<notin>
     set (map fst (sent (snd (snd
       (updateOrderStatus rejecting_orders 5 ''o1'' delivered (Some delivered_at_5) world1)))))"
  by (simp add: updateOrderStatus_def mutationFn_unfold rejecting_orders_def world1_def)



text \<open>
  C10. The write to \<^verbatim>\<open>orders\<close> is the first request of the mutation, and a write to
  \<^verbatim>\<open>order_assignments\<close> can only follow it. If the store answers the write to \<^verbatim>\<open>orders\<close>
  with an error, the mutation throws that error, sends nothing more, and no table has
  changed. If the write to \<^verbatim>\<open>orders\<close> is accepted and the write to \<^verbatim>\<open>order_assignments\<close> is
  answered with an error, the mutation throws that error and sends nothing more: the order
  keeps its new status and timestamp, and the assignments are as they were.
\<close>

theorem updateOrderStatus_not_atomic:
  assumes "updateOrderStatus srv now orderId st au w = (r, ui, w')"
  shows "(map fst (new_sent w w') = [Update_orders \<lparr>status_upd = st, updated_at_upd = now\<rparr> orderId]
          \<or> (\<exists>upd. au = Some upd \<and>
                map fst (new_sent w w') =
                  [Update_orders \<lparr>status_upd = st, updated_at_upd = now\<rparr> orderId,
                   Update_order_assignments upd orderId]))
       \<and> (\<forall>e. faults srv (Update_orders \<lparr>status_upd = st, updated_at_upd = now\<rparr> orderId) = Some e \<longrightarrow>
              r = Inl e \<and>
              map fst (new_sent w w') =
                [Update_orders \<lparr>status_upd = st, updated_at_upd = now\<rparr> orderId] \<and>
              db w' = db w)
       \<and> (\<forall>upd e. faults srv (Update_orders \<lparr>status_upd = st, updated_at_upd = now\<rparr> orderId) = None \<and>
              au = Some upd \<and> faults srv (Update_order_assignments upd orderId) = Some e \<longrightarrow>
              r = Inl e \<and>
              map fst (new_sent w w') =
                [Update_orders \<lparr>status_upd = st, updated_at_upd = now\<rparr> orderId,
                 Update_order_assignments upd orderId] \<and>
              orders (db w') =
                map (\<lambda>ord. if id_order ord = orderId
                            then ord\<lparr>status := st, updated_at := now\<rparr> else ord)
                  (orders (db w)) \<and>
              order_assignments (db w') = order_assignments (db w))"
  using assms
  by (auto simp: updateOrderStatus_def mutationFn_unfold new_sent_def apply_orders_update_def
           split: option.splits)

theorem updateOrderStatus_not_atomic_witness:
  "db (snd (snd (updateOrderStatus rejecting_orders 5 ''o1'' delivered (Some delivered_at_5) world1)))
     = db world1
   \<and> orders (db (snd (snd
        (updateOrderStatus rejecting_assignments 5 ''o1'' delivered (Some delivered_at_5) world1))))
     = [order1\<lparr>status := delivered, updated_at := 5\<rparr>]
   \<and> order_assignments (db (snd (snd
        (updateOrderStatus rejecting_assignments 5 ''o1'' delivered (Some delivered_at_5) world1))))
     = [assignment1]"
proof -
  obtain r1 ui1 w1 where run1:
    "updateOrderStatus rejecting_orders 5 ''o1'' delivered (Some delivered_at_5) world1 = (r1, ui1, w1)"
    by (cases "updateOrderStatus rejecting_orders 5 ''o1'' delivered (Some delivered_at_5) world1")
  obtain r2 ui2 w2 where run2:
    "updateOrderStatus rejecting_assignments 5 ''o1'' delivered (Some delivered_at_5) world1 = (r2, ui2, w2)"
    by (cases "updateOrderStatus rejecting_assignments 5 ''o1'' delivered (Some delivered_at_5) world1")
  have f1: "faults rejecting_orders (Update_orders \<lparr>status_upd = delivered, updated_at_upd = 5\<rparr> ''o1'')
              = Some (PostgrestError ''permission denied'')"
    by (simp add: rejecting_orders_def)
  have f2: "faults rejecting_assignments
              (Update_orders \<lparr>status_upd = delivered, updated_at_upd = 5\<rparr> ''o1'') = None
     \<and> Some delivered_at_5 = Some delivered_at_5
     \<and> faults rejecting_assignments (Update_order_assignments delivered_at_5 ''o1'')
              = Some (PostgrestError ''timeout'')"
    by (simp add: rejecting_assignments_def)
  from updateOrderStatus_not_atomic [OF run1] f1 have "db w1 = db world1"
    by blast
  moreover from updateOrderStatus_not_atomic [OF run2] f2
  have "orders (db w2) =
          map (\<lambda>ord. if id_order ord = ''o1''
                      then ord\<lparr>status := delivered, updated_at := 5\<rparr> else ord)
            (orders (db world1))
        \<and> order_assignments (db w2) = order_assignments (db world1)"
    by blast
  ultimately show ?thesis
    unfolding run1 run2 by (simp add: world1_def order1_def)
qed

section \<open>Without a driver id\<close>

text \<open>
  C9. When \<^verbatim>\<open>driverId\<close> is \<^verbatim>\<open>undefined\<close>, the query function of \<^verbatim>\<open>useAvailableOrders\<close> and the
  assigned-orders query function of \<^verbatim>\<open>useDriverOrders\<close> return the empty list and leave the
  log of requests as it was, and \<^verbatim>\<open>useAvailableOrders\<close> opens no channel.
\<close>

theorem no_driver_no_remote_call:
  "useAvailableOrders_queryFn srv None w = (Inr [], w)
   \<and> assignedOrders_queryFn srv None w = (Inr [], w)
   \<and> subscription None = None"
  by (simp add: useAvailableOrders_queryFn_def assignedOrders_queryFn_def subscription_def
        falsy_def)

theorem no_driver_no_remote_call_witness:
  "useAvailableOrders_queryFn lookup_failing None world2 = (Inr [], world2)
   \<and> assignedOrders_queryFn lookup_failing None world2 = (Inr [], world2)
   \<and> subscription None = None"
  using no_driver_no_remote_call [of lookup_failing world2] by simp

section \<open>The two available-orders queries\<close>


lemma select_orders_unfold:
  "select_orders srv q w =
     (case faults srv (Select_orders q) of
        Some e \<Rightarrow> (Inl e, w\<lparr>sent := sent w @ [(Select_orders q, Some e)]\<rparr>)
      | None \<Rightarrow> (Inr (run_orders_query (not_cs srv (db w)) (db w) q),
                 w\<lparr>sent := sent w @ [(Select_orders q, None)]\<rparr>))"
  by (simp add: select_orders_def remote_def split: option.splits)

lemma select_order_assignments_order_id_unfold:
  "select_order_assignments_order_id srv w =
     (case faults srv Select_order_assignments_order_id of
        Some e \<Rightarrow> (Inl e, w\<lparr>sent := sent w @ [(Select_order_assignments_order_id, Some e)]\<rparr>)
      | None \<Rightarrow> (Inr (map order_id (order_assignments (db w))),
                 w\<lparr>sent := sent w @ [(Select_order_assignments_order_id, None)]\<rparr>))"
  by (simp add: select_order_assignments_order_id_def remote_def split: option.splits)











text \<open>
  C2. There is a state of the store on which the two computations of the available orders
  disagree: with one ready order that nobody is assigned to, and a store that answers every
  request, \<^verbatim>\<open>useAvailableOrders\<close> returns no order and the available-orders query of
  \<^verbatim>\<open>useDriverOrders\<close> returns that order, for every driver id and whatever the filter
  \<^verbatim>\<open>.not('order_assignments', 'cs', '{}')\<close> lets through.
\<close>

theorem available_orders_inconsistent:
  "\<exists>d. \<forall>cs driverId. \<exists>xs ys.
     fst (useAvailableOrders_queryFn \<lparr>faults = (\<lambda>req. None), not_cs = cs\<rparr> driverId
            \<lparr>db = d, sent = []\<rparr>) = Inr xs \<and>
     fst (availableOrders_queryFn \<lparr>faults = (\<lambda>req. None), not_cs = cs\<rparr>
            \<lparr>db = d, sent = []\<rparr>) = Inr ys \<and>
     set xs \<noteq> set ys"
proof (intro exI allI)
  fix cs :: "database \<Rightarrow> order_row \<Rightarrow> bool" and driverId :: "string option"
  let ?srv = "\<lparr>faults = (\<lambda>req. None), not_cs = cs\<rparr>"
  let ?w = "\<lparr>db = ready_unassigned, sent = []\<rparr>"
  have pend: "run_orders_query (cs ready_unassigned) ready_unassigned pending_orders_query = []"
    by (simp add: run_orders_query_def selected_def pending_orders_query_def
          ready_unassigned_def order1_def)
  have rdy: "run_orders_query (cs ready_unassigned) ready_unassigned (ready_orders_query []) =
               [order1]"
    by (simp add: run_orders_query_def selected_def ready_orders_query_def
          ready_unassigned_def order1_def)
  have a: "fst (useAvailableOrders_queryFn ?srv driverId ?w) = Inr []"
    by (simp add: useAvailableOrders_queryFn_def select_orders_unfold pend)
  have b: "fst (availableOrders_queryFn ?srv ?w) = Inr [order1]"
    using rdy
    by (simp add: availableOrders_queryFn_def select_order_assignments_order_id_unfold
          select_orders_unfold ready_unassigned_def)
  show "fst (useAvailableOrders_queryFn ?srv driverId ?w) = Inr [] \<and>
        fst (availableOrders_queryFn ?srv ?w) = Inr [order1] \<and> set [] \<noteq> set [order1]"
    using a b by simp
qed



section \<open>The real-time subscription\<close>

lemma startsWith_iff: "startsWith s t \<longleftrightarrow> (\<exists>post. s = t @ post)"
  by (induction s t rule: startsWith.induct) auto

lemma includes_str_iff: "includes_str s t \<longleftrightarrow> (\<exists>pre post. s = pre @ t @ post)"
proof (induction s)
  case Nil
  show ?case by auto
next
  case (Cons b s)
  show ?case
  proof
    assume "includes_str (b # s) t"
    then consider "startsWith (b # s) t" | "includes_str s t" by auto
    then show "\<exists>pre post. b # s = pre @ t @ post"
    proof cases
      case 1
      then obtain post where "b # s = t @ post" by (auto simp: startsWith_iff)
      then have "b # s = [] @ t @ post" by simp
      then show ?thesis by blast
    next
      case 2
      then obtain pre post where "s = pre @ t @ post" using Cons.IH by auto
      then have "b # s = (b # pre) @ t @ post" by simp
      then show ?thesis by blast
    qed
  next
    assume "\<exists>pre post. b # s = pre @ t @ post"
    then obtain pre post where eq: "b # s = pre @ t @ post" by blast
    show "includes_str (b # s) t"
    proof (cases pre)
      case Nil
      with eq have "startsWith (b # s) t" by (auto simp: startsWith_iff)
      then show ?thesis by simp
    next
      case (Cons c pre')
      with eq have "s = pre' @ t @ post" by simp
      then have "includes_str s t" using Cons.IH by blast
      then show ?thesis by simp
    qed
  qed
qed

text \<open>
  C8. For every change of the table \<^verbatim>\<open>orders\<close> that the channel of \<^verbatim>\<open>useAvailableOrders\<close>
  receives: an \<^verbatim>\<open>INSERT\<close> invalidates the queries under \<^verbatim>\<open>available-orders\<close> if and only if
  the new order is pending and its notes, if it has any, do not contain \<^verbatim>\<open>Mesa:\<close>, and does
  nothing otherwise; an \<^verbatim>\<open>UPDATE\<close> always invalidates them.
\<close>

theorem subscription_invalidation:
  assumes "subscription driverId = Some ch"
    and "schema_name c = ''public''" and "table_name c = ''orders''"
  shows "(eventType c = INSERT \<longrightarrow>
            (receive ch c = [InvalidateQueries [''available-orders'']] \<longleftrightarrow>
               status (new_row c) = pending \<and>
               \<not> (\<exists>n pre post. notes_order (new_row c) = Some n \<and> n = pre @ ''Mesa:'' @ post)) \<and>
            (receive ch c = [] \<or> receive ch c = [InvalidateQueries [''available-orders'']]))
       \<and> (eventType c = UPDATE \<longrightarrow> receive ch c = [InvalidateQueries [''available-orders'']])"
proof -
  have ch: "ch = \<lparr>channel_name = ''new-orders-changes'',
                 bindings =
                   [\<lparr>on_event = INSERT, on_schema = ''public'', on_table = ''orders'',
                     callback = on_insert\<rparr>,
                    \<lparr>on_event = UPDATE, on_schema = ''public'', on_table = ''orders'',
                     callback = on_update\<rparr>]\<rparr>"
    using assms(1) by (simp add: subscription_def split: if_splits)
  have ins: "eventType c = INSERT \<Longrightarrow> receive ch c = on_insert (new_row c)"
    using assms(2,3) by (simp add: ch receive_def matches_def)
  have upd: "eventType c = UPDATE \<Longrightarrow> receive ch c = on_update (new_row c)"
    using assms(2,3) by (simp add: ch receive_def matches_def)
  have cond: "(case notes_order (new_row c) of None \<Rightarrow> False | Some n \<Rightarrow> includes_str n ''Mesa:'')
        \<longleftrightarrow> (\<exists>n pre post. notes_order (new_row c) = Some n \<and> n = pre @ ''Mesa:'' @ post)"
    by (cases "notes_order (new_row c)") (simp_all add: includes_str_iff)
  show ?thesis
    using ins upd cond by (auto simp: on_insert_def on_update_def)
qed

theorem subscription_invalidation_witness:
  "subscription (Some ''d1'') = Some channel_d1
   \<and> receive channel_d1 insert_delivery_order = [InvalidateQueries [''available-orders'']]
   \<and> receive channel_d1 insert_table_order = []
   \<and> receive channel_d1 update_order = [InvalidateQueries [''available-orders'']]"
proof -
  have sub: "subscription (Some ''d1'') = Some channel_d1"
    by (simp add: subscription_def falsy_def channel_d1_def)
  have "includes_str ''Mesa: 4'' ''Mesa:''"
    by simp
  then have tbl: "\<exists>n pre post. notes_order (new_row insert_table_order) = Some n \<and>
                    n = pre @ ''Mesa:'' @ post"
    by (simp add: includes_str_iff insert_table_order_def)
  have dlv: "status (new_row insert_delivery_order) = pending \<and>
             \<not> (\<exists>n pre post. notes_order (new_row insert_delivery_order) = Some n \<and>
                   n = pre @ ''Mesa:'' @ post)"
    by (simp add: insert_delivery_order_def order2_def)
  have 1: "receive channel_d1 insert_delivery_order = [InvalidateQueries [''available-orders'']]"
    using subscription_invalidation [OF sub, of insert_delivery_order] dlv
    by (simp add: insert_delivery_order_def)
  have 2: "receive channel_d1 insert_table_order = []"
    using subscription_invalidation [OF sub, of insert_table_order] tbl
    by (auto simp: insert_table_order_def)
  have 3: "receive channel_d1 update_order = [InvalidateQueries [''available-orders'']]"
    using subscription_invalidation [OF sub, of update_order]
    by (simp add: update_order_def)
  show ?thesis using sub 1 2 3 by simp
qed

section \<open>The distance estimate\<close>

text \<open>
  \<^verbatim>\<open>calculateDistance\<close> of the delivery request card computes in IEEE-754 double precision
  through \<^verbatim>\<open>Math.sin\<close>, \<^verbatim>\<open>Math.cos\<close>, \<^verbatim>\<open>Math.sqrt\<close>, \<^verbatim>\<open>Math.atan2\<close> and \<^verbatim>\<open>Math.round\<close>, whose
  results the language leaves to the implementation. It has no counterpart in this
  development: a function on the real numbers would not be the function the card runs.
\<close>

end
